theory Spec2Isabelle
  imports Complex_Main "HOL-Library.Sublist"
begin

section \<open>Python values and numpy arrays\<close>

text \<open>
  The exceptions that the methods of \<^verbatim>\<open>mapio/cloud.py\<close> and the numpy operations they
  call can raise. \<^verbatim>\<open>DataSetException\<close> is the repository's own error kind (imported from
  \<^verbatim>\<open>mapio/dataset.py\<close>); the others are Python built-ins.
\<close>

datatype error =
    DataSetException
  | NotImplementedError
  | AttributeError
  | IndexError
  | ValueError
  | TypeError

text \<open>
  The element types of the arrays: numpy's \<^verbatim>\<open>float32\<close>, \<^verbatim>\<open>float64\<close>, \<^verbatim>\<open>int32\<close>
  and \<^verbatim>\<open>int64\<close>. Arrays of other element types are not represented.
\<close>

datatype dtype = Float32 | Float64 | Int32 | Int64

text \<open>
  The values a caller can hand to a method. A numpy array is its element type, its shape
  (the tuple \<^verbatim>\<open>a.shape\<close>) and its elements in row-major order; the other constructors
  are Python objects that are not arrays and have no \<^verbatim>\<open>shape\<close> attribute. An element
  is the real number it denotes; a Python float is the real number it denotes. NaN and
  the infinities are not represented.
\<close>

datatype pyval =
    NdArray dtype "nat list" "real list"
  | PyList "real list"
  | PyFloat real
  | PyStr string
  | PyNone

section \<open>Conversion between element types\<close>

text \<open>
  Rounding of a real number to the nearest integer, ties to the even one: the rounding
  of IEEE 754 arithmetic.
\<close>

definition round_even :: "real \<Rightarrow> int" where
  "round_even y =
     (let f = \<lfloor>y\<rfloor>; d = y - of_int f in
      if d < 1 / 2 then f else if 1 / 2 < d then f + 1 else if even f then f else f + 1)"

text \<open>The binary exponent of a number other than zero: \<open>2 ^ e \<le> |x| < 2 ^ (e + 1)\<close>.\<close>

definition exponent :: "real \<Rightarrow> int" where
  "exponent x = \<lfloor>log 2 \<bar>x\<bar>\<rfloor>"

text \<open>
  The spacing of the floating-point numbers with \<open>p\<close> significant bits and least normal
  exponent \<open>emin\<close> around \<open>x\<close>, and the rounding of \<open>x\<close> to the nearest of them. Below
  \<open>2 ^ emin\<close> the spacing stays that of the subnormal numbers. The exponent has no upper
  limit here: where IEEE arithmetic gives an infinity, \<open>round_float\<close> gives a number of
  at least \<open>2 ^ (emax + 1)\<close>, which compares with every finite number of the format as
  the infinity does.
\<close>

definition ulp :: "nat \<Rightarrow> int \<Rightarrow> real \<Rightarrow> real" where
  "ulp p emin x = 2 powi (max (exponent x) emin - int p + 1)"

definition round_float :: "nat \<Rightarrow> int \<Rightarrow> real \<Rightarrow> real" where
  "round_float p emin x =
     (if x = 0 then 0
      else sgn x * (ulp p emin x * of_int (round_even (\<bar>x\<bar> / ulp p emin x))))"

text \<open>
  numpy compares an array with a Python float in their common element type: \<^verbatim>\<open>float32\<close>
  for a \<^verbatim>\<open>float32\<close> array, \<^verbatim>\<open>float64\<close> for a \<^verbatim>\<open>float64\<close>, \<^verbatim>\<open>int32\<close> or
  \<^verbatim>\<open>int64\<close> array. \<open>compared dt x\<close> is the value that takes part in the comparison for
  an element or a bound \<open>x\<close> when the array has element type \<open>dt\<close>: \<open>x\<close> rounded to
  \<^verbatim>\<open>float32\<close> (24 significant bits, least exponent -126) or to \<^verbatim>\<open>float64\<close> (53
  significant bits, least exponent -1022). An element of a floating-point array and a
  \<^verbatim>\<open>float64\<close> bound of a \<^verbatim>\<open>float64\<close> array are such numbers already and stay as
  they are.
\<close>

fun compared :: "dtype \<Rightarrow> real \<Rightarrow> real" where
  "compared Float32 x = round_float 24 (- 126) x"
| "compared Float64 x = round_float 53 (- 1022) x"
| "compared Int32 x = round_float 53 (- 1022) x"
| "compared Int64 x = round_float 53 (- 1022) x"

declare compared.simps [simp del]

section \<open>Operations of numpy and Python\<close>

text \<open>Every numpy array holds as many elements as its shape says.\<close>

fun wf_pyval :: "pyval \<Rightarrow> bool" where
  "wf_pyval (NdArray dt s xs) = (length xs = prod_list s)"
| "wf_pyval v = True"

text \<open>A boolean array, the result of an elementwise comparison: shape and flags.\<close>

type_synonym boolarray = "nat list \<times> bool list"

text \<open>Sequencing of computations that may raise: the first exception wins.\<close>

definition try_bind :: "error + 'a \<Rightarrow> ('a \<Rightarrow> error + 'b) \<Rightarrow> error + 'b" where
  "try_bind m f = (case m of Inl e \<Rightarrow> Inl e | Inr x \<Rightarrow> f x)"

text \<open>\<^verbatim>\<open>v.shape\<close>: only an array has the attribute.\<close>

fun shape :: "pyval \<Rightarrow> error + nat list" where
  "shape (NdArray dt s xs) = Inr s"
| "shape v = Inl AttributeError"

text \<open>
  \<^verbatim>\<open>a.min()\<close> and \<^verbatim>\<open>a.max()\<close>: the reduction over all elements; numpy raises
  ValueError on an array of size zero, and the other values have no such method.
\<close>

fun ndarray_min :: "pyval \<Rightarrow> error + real" where
  "ndarray_min (NdArray dt s []) = Inl ValueError"
| "ndarray_min (NdArray dt s (x # xs)) = Inr (fold min xs x)"
| "ndarray_min v = Inl AttributeError"

fun ndarray_max :: "pyval \<Rightarrow> error + real" where
  "ndarray_max (NdArray dt s []) = Inl ValueError"
| "ndarray_max (NdArray dt s (x # xs)) = Inr (fold max xs x)"
| "ndarray_max v = Inl AttributeError"

text \<open>
  \<^verbatim>\<open>a > b\<close> and \<^verbatim>\<open>a < b\<close> for a Python float \<^verbatim>\<open>b\<close>. On an array the comparison
  is elementwise, each element and the bound converted to the common element type
  first. On a Python float it is the comparison of the two floats, and the result is a
  single boolean (the boolean array of shape \<open>()\<close>). A list, a string or None cannot be
  compared with a float: TypeError.
\<close>

fun greater_scalar :: "pyval \<Rightarrow> real \<Rightarrow> error + boolarray" where
  "greater_scalar (NdArray dt s xs) b = Inr (s, map (\<lambda>x. compared dt x > compared dt b) xs)"
| "greater_scalar (PyFloat a) b = Inr ([], [a > b])"
| "greater_scalar v b = Inl TypeError"

fun less_scalar :: "pyval \<Rightarrow> real \<Rightarrow> error + boolarray" where
  "less_scalar (NdArray dt s xs) b = Inr (s, map (\<lambda>x. compared dt x < compared dt b) xs)"
| "less_scalar (PyFloat a) b = Inr ([], [a < b])"
| "less_scalar v b = Inl TypeError"

text \<open>
  \<^verbatim>\<open>m1 & m2\<close> on boolean arrays: elementwise for equal shapes, and a single boolean
  combines with every element of an array. numpy broadcasts other unequal shapes where
  they are compatible and raises ValueError where they are not; that broadcasting is
  not modelled, every other pair of unequal shapes is reported as ValueError. A Cloud
  never reaches that branch (lemma \<open>inside_mask_ok\<close>).
\<close>

definition and_mask :: "boolarray \<Rightarrow> boolarray \<Rightarrow> error + boolarray" where
  "and_mask m1 m2 =
     (if fst m1 = fst m2 then Inr (fst m1, map2 (\<and>) (snd m1) (snd m2))
      else if fst m1 = [] then Inr (fst m2, map (\<lambda>b. list_all id (snd m1) \<and> b) (snd m2))
      else if fst m2 = [] then Inr (fst m1, map (\<lambda>b. b \<and> list_all id (snd m2)) (snd m1))
      else Inl ValueError)"

text \<open>The elements of \<open>xs\<close> at the positions where the mask is set, in their order.\<close>

definition select :: "bool list \<Rightarrow> 'a list \<Rightarrow> 'a list" where
  "select bs xs = map fst (filter snd (zip xs bs))"

text \<open>
  \<^verbatim>\<open>a[mask]\<close> with a boolean array: for a mask of the array's shape the result is the
  one-dimensional array of the selected elements. A mask of another shape is reported as
  IndexError (numpy accepts a mask whose shape is a proper prefix of the array's and
  selects sub-arrays; a Cloud never reaches that branch either). The result has the
  element type of the array. A list, a float, a string or None indexed with a boolean
  array raises TypeError.
\<close>

fun mask_index :: "pyval \<Rightarrow> boolarray \<Rightarrow> error + pyval" where
  "mask_index (NdArray dt s xs) m =
     (if s = fst m then Inr (NdArray dt [length (select (snd m) xs)] (select (snd m) xs))
      else Inl IndexError)"
| "mask_index v m = Inl TypeError"

text \<open>\<^verbatim>\<open>bounds[i]\<close> on a tuple or list of Python floats.\<close>

definition index_bounds :: "real list \<Rightarrow> nat \<Rightarrow> error + real" where
  "index_bounds bounds i = (if i < length bounds then Inr (bounds ! i) else Inl IndexError)"

text \<open>
  \<^verbatim>\<open>d.argmin()\<close>: the index, in the flattened array, of the first smallest element;
  ValueError on an empty array.
\<close>

fun first_index :: "real \<Rightarrow> real list \<Rightarrow> nat" where
  "first_index m [] = 0"
| "first_index m (x # xs) = (if x = m then 0 else Suc (first_index m xs))"

fun argmin :: "pyval \<Rightarrow> error + nat" where
  "argmin (NdArray dt s []) = Inl ValueError"
| "argmin (NdArray dt s (x # xs)) = Inr (first_index (fold min xs x) (x # xs))"
| "argmin v = Inl AttributeError"

text \<open>
  \<^verbatim>\<open>a[i]\<close> with an integer: an element of a one-dimensional array or list, the
  \<open>i\<close>-th sub-array along the first axis of an array of more dimensions, a character
  of a string.
\<close>

fun index_int :: "pyval \<Rightarrow> nat \<Rightarrow> error + pyval" where
  "index_int (NdArray dt [] xs) i = Inl IndexError"
| "index_int (NdArray dt [n] xs) i =
     (if i < n \<and> i < length xs then Inr (PyFloat (xs ! i)) else Inl IndexError)"
| "index_int (NdArray dt (n # rest) xs) i =
     (if i < n then
        Inr (NdArray dt rest (take (prod_list rest) (drop (i * prod_list rest) xs)))
      else Inl IndexError)"
| "index_int (PyList xs) i =
     (if i < length xs then Inr (PyFloat (xs ! i)) else Inl IndexError)"
| "index_int (PyStr cs) i =
     (if i < length cs then Inr (PyStr [cs ! i]) else Inl IndexError)"
| "index_int v i = Inl TypeError"

section \<open>The Cloud class\<close>

text \<open>
  A Cloud object is its instance dictionary: the attributes that have been assigned on
  \<^verbatim>\<open>self\<close>, by name. Reading an attribute that was never assigned raises
  AttributeError. The base class \<^verbatim>\<open>DataSet\<close> (\<^verbatim>\<open>mapio/dataset.py\<close>) is an
  abstract interface and is taken to contribute no data attributes.
\<close>

type_synonym cloud = "string \<rightharpoonup> pyval"

definition getattr :: "cloud \<Rightarrow> string \<Rightarrow> error + pyval" where
  "getattr self name = (case self name of None \<Rightarrow> Inl AttributeError | Some v \<Rightarrow> Inr v)"

text \<open>
  \<^verbatim>\<open>Cloud.__init__(self, lon, lat, data)\<close>, on a fresh object. The condition is a chain of
  \<^verbatim>\<open>or\<close>: \<^verbatim>\<open>data.shape\<close> is read only when the shapes of \<^verbatim>\<open>lon\<close> and
  \<^verbatim>\<open>lat\<close> agree.
\<close>

definition Cloud_init :: "pyval \<Rightarrow> pyval \<Rightarrow> pyval \<Rightarrow> error + cloud" where
  "Cloud_init lon lat data =
     try_bind (shape lon) (\<lambda>slon.
     try_bind (shape lat) (\<lambda>slat.
       if slon \<noteq> slat then Inl DataSetException
       else
         try_bind (shape data) (\<lambda>sdata.
           if slon \<noteq> sdata \<or> slat \<noteq> sdata then Inl DataSetException
           else Inr [''_lon'' \<mapsto> lon, ''_lat'' \<mapsto> lat, ''_data'' \<mapsto> data])))"

text \<open>\<^verbatim>\<open>Cloud.getData(self)\<close>.\<close>

definition getData :: "cloud \<Rightarrow> error + pyval" where
  "getData self = getattr self ''_data''"

text \<open>
  \<^verbatim>\<open>Cloud.setData(self, data)\<close>. A method that assigns to \<^verbatim>\<open>self\<close> returns the
  outcome (\<open>Inr ()\<close> for a normal return, \<open>Inl e\<close> for an exception) and the object as
  it is when the call ends.
\<close>

definition setData :: "cloud \<Rightarrow> pyval \<Rightarrow> (error + unit) \<times> cloud" where
  "setData self data =
     (case try_bind (shape data) (\<lambda>sdata.
           try_bind (getattr self ''_lon'') (\<lambda>lon.
           try_bind (shape lon) (\<lambda>slon.
             if sdata \<noteq> slon then Inl DataSetException else Inr ()))) of
        Inl e \<Rightarrow> (Inl e, self)
      | Inr u \<Rightarrow> (Inr (), self(''_data'' \<mapsto> data)))"

text \<open>\<^verbatim>\<open>Cloud.getBounds(self)\<close>.\<close>

definition getBounds :: "cloud \<Rightarrow> error + (real \<times> real \<times> real \<times> real)" where
  "getBounds self =
     try_bind (try_bind (getattr self ''_lon'') ndarray_min) (\<lambda>lonmin.
     try_bind (try_bind (getattr self ''_lon'') ndarray_max) (\<lambda>lonmax.
     try_bind (try_bind (getattr self ''_lat'') ndarray_min) (\<lambda>latmin.
     try_bind (try_bind (getattr self ''_lat'') ndarray_max) (\<lambda>latmax.
       Inr (lonmin, lonmax, latmin, latmax)))))"

text \<open>
  The first statement of \<^verbatim>\<open>Cloud.trim\<close>: the mask \<^verbatim>\<open>inside\<close>, its four comparisons
  evaluated left to right and joined by \<^verbatim>\<open>&\<close>.
\<close>

definition inside_mask :: "cloud \<Rightarrow> real list \<Rightarrow> error + boolarray" where
  "inside_mask self bounds =
     try_bind (getattr self ''_lon'') (\<lambda>lon0.
     try_bind (index_bounds bounds 0) (\<lambda>b0.
     try_bind (greater_scalar lon0 b0) (\<lambda>m0.
     try_bind (getattr self ''_lon'') (\<lambda>lon1.
     try_bind (index_bounds bounds 1) (\<lambda>b1.
     try_bind (less_scalar lon1 b1) (\<lambda>m1.
     try_bind (and_mask m0 m1) (\<lambda>m01.
     try_bind (getattr self ''_lat'') (\<lambda>lat2.
     try_bind (index_bounds bounds 2) (\<lambda>b2.
     try_bind (greater_scalar lat2 b2) (\<lambda>m2.
     try_bind (and_mask m01 m2) (\<lambda>m012.
     try_bind (getattr self ''_lat'') (\<lambda>lat3.
     try_bind (index_bounds bounds 3) (\<lambda>b3.
     try_bind (less_scalar lat3 b3) (\<lambda>m3.
       and_mask m012 m3))))))))))))))"

text \<open>
  \<^verbatim>\<open>Cloud.trim(self, bounds)\<close>: the mask, then the three assignments in the order of
  the source. An exception in a later statement leaves the earlier assignments done.
\<close>

definition trim :: "cloud \<Rightarrow> real list \<Rightarrow> (error + unit) \<times> cloud" where
  "trim self bounds =
     (case inside_mask self bounds of
        Inl e \<Rightarrow> (Inl e, self)
      | Inr inside \<Rightarrow>
          (case try_bind (getattr self ''_lon'') (\<lambda>lon. mask_index lon inside) of
             Inl e \<Rightarrow> (Inl e, self)
           | Inr lon' \<Rightarrow>
               let self1 = self(''_lon'' \<mapsto> lon') in
               (case try_bind (getattr self1 ''_lat'') (\<lambda>lat. mask_index lat inside) of
                  Inl e \<Rightarrow> (Inl e, self1)
                | Inr lat' \<Rightarrow>
                    let self2 = self1(''_lat'' \<mapsto> lat') in
                    (case try_bind (getattr self2 ''_data'')
                            (\<lambda>data. mask_index data inside) of
                       Inl e \<Rightarrow> (Inl e, self2)
                     | Inr data' \<Rightarrow> (Inr (), self2(''_data'' \<mapsto> data'))))))"

text \<open>
  \<^verbatim>\<open>Cloud.getValue(self, lat, lon, method)\<close>. The geodesic distance function of the
  external library (\<^verbatim>\<open>openquake.hazardlib.geo.geodetic.distance\<close>) is a parameter. Its
  arguments are evaluated before it is called, in the order they are written; the third
  and fourth read the attributes \<^verbatim>\<open>_lons\<close> and \<^verbatim>\<open>_lats\<close>. The method
  is a string, compared with \<^verbatim>\<open>'nearest'\<close>.
\<close>

definition getValue ::
  "(real \<Rightarrow> real \<Rightarrow> pyval \<Rightarrow> pyval \<Rightarrow> error + pyval) \<Rightarrow>
   cloud \<Rightarrow> real \<Rightarrow> real \<Rightarrow> string \<Rightarrow> error + pyval" where
  "getValue distance self lat lon method =
     (if method = ''nearest'' then
        try_bind (getattr self ''_lons'') (\<lambda>lons.
        try_bind (getattr self ''_lats'') (\<lambda>lats.
        try_bind (distance lon lat lons lats) (\<lambda>d.
        try_bind (argmin d) (\<lambda>imin.
        try_bind (getattr self ''_data'') (\<lambda>data.
          index_int data imin)))))
      else Inl NotImplementedError)"

text \<open>\<^verbatim>\<open>Cloud.interpolateToGrid(self, geodict, method)\<close>: the body is one \<^verbatim>\<open>raise\<close>.\<close>

definition interpolateToGrid :: "cloud \<Rightarrow> 'g \<Rightarrow> string \<Rightarrow> error + pyval" where
  "interpolateToGrid self geodict method = Inl NotImplementedError"

section \<open>Calls, states and the notions of the specification\<close>

text \<open>
  The calls a client can make on a Cloud, and the object each leaves behind. Only
  \<^verbatim>\<open>setData\<close> and \<^verbatim>\<open>trim\<close> contain assignments to \<^verbatim>\<open>self\<close>; the bodies of
  \<^verbatim>\<open>getValue\<close>, \<^verbatim>\<open>getBounds\<close> and \<^verbatim>\<open>getData\<close> only read it.
\<close>

datatype call =
    SetData pyval
  | Trim "real list"
  | GetValue real real string
  | GetBounds
  | GetData

fun state_after :: "cloud \<Rightarrow> call \<Rightarrow> cloud" where
  "state_after self (SetData data) = snd (setData self data)"
| "state_after self (Trim bounds) = snd (trim self bounds)"
| "state_after self (GetValue lat lon method) = self"
| "state_after self GetBounds = self"
| "state_after self GetData = self"

fun wf_call :: "call \<Rightarrow> bool" where
  "wf_call (SetData data) = wf_pyval data"
| "wf_call c = True"

text \<open>The shape of the array stored under an attribute.\<close>

definition attr_shape :: "cloud \<Rightarrow> string \<Rightarrow> error + nat list" where
  "attr_shape self name = try_bind (getattr self name) shape"

text \<open>
  The invariant of the data model: the three attributes are present, have a shape, and
  the three shapes are the same.
\<close>

definition cloud_inv :: "cloud \<Rightarrow> bool" where
  "cloud_inv self =
     (\<not> isl (attr_shape self ''_lon'') \<and>
      attr_shape self ''_lat'' = attr_shape self ''_lon'' \<and>
      attr_shape self ''_data'' = attr_shape self ''_lon'')"

text \<open>A Cloud whose three arrays are moreover well-formed numpy arrays.\<close>

definition wf_attr :: "cloud \<Rightarrow> string \<Rightarrow> bool" where
  "wf_attr self name = (case self name of None \<Rightarrow> False | Some v \<Rightarrow> wf_pyval v)"

definition wf_cloud :: "cloud \<Rightarrow> bool" where
  "wf_cloud self =
     (cloud_inv self \<and> wf_attr self ''_lon'' \<and> wf_attr self ''_lat'' \<and>
      wf_attr self ''_data'')"

text \<open>
  The elements of the array stored under an attribute, and the points of a Cloud: the
  triples (longitude, latitude, value) in storage order.
\<close>

definition elements :: "cloud \<Rightarrow> string \<Rightarrow> real list" where
  "elements self name = (case self name of Some (NdArray dt s xs) \<Rightarrow> xs | _ \<Rightarrow> [])"

text \<open>The element type of the array stored under an attribute.\<close>

definition attr_dtype :: "cloud \<Rightarrow> string \<Rightarrow> dtype" where
  "attr_dtype self name =
     (case self name of Some (NdArray dt s xs) \<Rightarrow> dt | _ \<Rightarrow> Float64)"

definition points :: "cloud \<Rightarrow> (real \<times> real \<times> real) list" where
  "points self =
     zip (elements self ''_lon'') (zip (elements self ''_lat'') (elements self ''_data''))"

text \<open>
  Where a point lies with respect to the box \<open>(xmin, xmax, ymin, ymax)\<close>: strictly
  inside it, strictly outside it, or on one of the four lines that bound it.
\<close>

fun strictly_inside :: "real list \<Rightarrow> real \<times> real \<times> real \<Rightarrow> bool" where
  "strictly_inside [xmin, xmax, ymin, ymax] (x, y, v) =
     (xmin < x \<and> x < xmax \<and> ymin < y \<and> y < ymax)"
| "strictly_inside bounds p = False"

fun strictly_outside :: "real list \<Rightarrow> real \<times> real \<times> real \<Rightarrow> bool" where
  "strictly_outside [xmin, xmax, ymin, ymax] (x, y, v) =
     (x < xmin \<or> xmax < x \<or> y < ymin \<or> ymax < y)"
| "strictly_outside bounds p = False"


text \<open>
  Strictly inside the box as numpy compares: the point's coordinates and the bounds
  converted to the element type of the comparison, for longitudes of element type \<open>dx\<close>
  and latitudes of element type \<open>dy\<close>.
\<close>

fun compared_inside :: "dtype \<Rightarrow> dtype \<Rightarrow> real list \<Rightarrow> real \<times> real \<times> real \<Rightarrow> bool" where
  "compared_inside dx dy [xmin, xmax, ymin, ymax] (x, y, v) =
     (compared dx xmin < compared dx x \<and> compared dx x < compared dx xmax \<and>
      compared dy ymin < compared dy y \<and> compared dy y < compared dy ymax)"
| "compared_inside dx dy bounds p = False"

text \<open>
  The comparisons of \<^verbatim>\<open>trim\<close> are exact when the conversion changes no longitude, no
  latitude and no bound; so it is for \<^verbatim>\<open>float64\<close> arrays and Python floats.
\<close>

definition unrounded :: "dtype \<Rightarrow> real \<Rightarrow> bool" where
  "unrounded dt x = (compared dt x = x)"

fun exact_comparisons :: "cloud \<Rightarrow> real list \<Rightarrow> bool" where
  "exact_comparisons self [xmin, xmax, ymin, ymax] =
     (list_all (unrounded (attr_dtype self ''_lon'')) (xmin # xmax # elements self ''_lon'') \<and>
      list_all (unrounded (attr_dtype self ''_lat'')) (ymin # ymax # elements self ''_lat''))"
| "exact_comparisons self bounds = False"

text \<open>The flags of the mask that \<^verbatim>\<open>trim\<close> computes (empty when it raises).\<close>

definition mask_of :: "cloud \<Rightarrow> real list \<Rightarrow> bool list" where
  "mask_of self bounds = (case inside_mask self bounds of Inl e \<Rightarrow> [] | Inr m \<Rightarrow> snd m)"

text \<open>The mask written out on the element lists, for the proofs.\<close>

definition box_mask ::
  "dtype \<Rightarrow> dtype \<Rightarrow> real list \<Rightarrow> real list \<Rightarrow> real list \<Rightarrow> bool list" where
  "box_mask dx dy bounds xs ys =
     map2 (\<and>)
       (map2 (\<and>)
          (map2 (\<and>)
             (map (\<lambda>x. compared dx x > compared dx (bounds ! 0)) xs)
             (map (\<lambda>x. compared dx x < compared dx (bounds ! 1)) xs))
          (map (\<lambda>y. compared dy y > compared dy (bounds ! 2)) ys))
       (map (\<lambda>y. compared dy y < compared dy (bounds ! 3)) ys)"

text \<open>A Cloud used to instantiate the theorems: three points on a line.\<close>

definition example_cloud :: cloud where
  "example_cloud =
     [''_lon'' \<mapsto> NdArray Float64 [3] [10, 20, 30],
      ''_lat'' \<mapsto> NdArray Float64 [3] [1, 2, 3],
      ''_data'' \<mapsto> NdArray Float64 [3] [7, 8, 9]]"

text \<open>
  A Cloud of two points with \<^verbatim>\<open>float32\<close> coordinates. The first longitude is the
  \<^verbatim>\<open>float32\<close> nearest to one tenth, \<^verbatim>\<open>numpy.float32(0.1)\<close>. The Python float
  \<^verbatim>\<open>0.1\<close> is the \<^verbatim>\<open>float64\<close> nearest to one tenth, a smaller number.
\<close>

definition float32_tenth :: real where
  "float32_tenth = 13421773 / 134217728"

definition float64_tenth :: real where
  "float64_tenth = 3602879701896397 / 36028797018963968"

definition float32_cloud :: cloud where
  "float32_cloud =
     [''_lon'' \<mapsto> NdArray Float32 [2] [float32_tenth, 1 / 2],
      ''_lat'' \<mapsto> NdArray Float32 [2] [1, 1],
      ''_data'' \<mapsto> NdArray Float32 [2] [7, 8]]"

section \<open>Rounding: bounds, monotonicity, evaluation\<close>

lemma two_powr_int: "(2::real) powr (of_int k) = 2 powi k"
  by (simp add: powr_real_of_int')

lemma floor_log2_iff:
  assumes "0 < x"
  shows "\<lfloor>log 2 x\<rfloor> = e \<longleftrightarrow> 2 powi e \<le> x \<and> x < 2 powi (e + 1)"
proof -
  have "\<lfloor>log 2 x\<rfloor> = e \<longleftrightarrow> 2 powr (of_int e) \<le> x \<and> x < 2 powr (of_int e + 1)"
    using assms by (simp add: floor_log_eq_powr_iff)
  also have "of_int e + (1::real) = of_int (e + 1)" by simp
  finally show ?thesis unfolding two_powr_int .
qed

lemma exponent_eqI:
  assumes "2 powi e \<le> \<bar>x\<bar>" "\<bar>x\<bar> < 2 powi (e + 1)"
  shows "exponent x = e"
proof -
  have "0 < (2::real) powi e" by simp
  with assms(1) have pos: "0 < \<bar>x\<bar>" by linarith
  show ?thesis
    unfolding exponent_def floor_log2_iff[OF pos] using assms by simp
qed

lemma exponent_bounds:
  assumes "x \<noteq> 0"
  shows "2 powi (exponent x) \<le> \<bar>x\<bar>" "\<bar>x\<bar> < 2 powi (exponent x + 1)"
proof -
  from assms have pos: "0 < \<bar>x\<bar>" by simp
  have "\<lfloor>log 2 \<bar>x\<bar>\<rfloor> = exponent x" by (simp add: exponent_def)
  then have "2 powi (exponent x) \<le> \<bar>x\<bar> \<and> \<bar>x\<bar> < 2 powi (exponent x + 1)"
    unfolding floor_log2_iff[OF pos] .
  then show "2 powi (exponent x) \<le> \<bar>x\<bar>" "\<bar>x\<bar> < 2 powi (exponent x + 1)"
    by simp_all
qed

lemma round_even_of_int [simp]: "round_even (of_int n) = n"
  by (simp add: round_even_def)

lemma round_even_mono:
  assumes "y \<le> z"
  shows "round_even y \<le> round_even z"
proof (cases "\<lfloor>y\<rfloor> = \<lfloor>z\<rfloor>")
  case True
  with assms show ?thesis
    by (auto simp: round_even_def Let_def)
next
  case False
  with assms have "\<lfloor>y\<rfloor> < \<lfloor>z\<rfloor>" using floor_mono[OF assms] by linarith
  moreover have "round_even y \<le> \<lfloor>y\<rfloor> + 1" by (auto simp: round_even_def Let_def)
  moreover have "\<lfloor>z\<rfloor> \<le> round_even z" by (auto simp: round_even_def Let_def)
  ultimately show ?thesis by linarith
qed

lemma exponent_mono:
  assumes "0 < x" "x \<le> y"
  shows "exponent x \<le> exponent y"
  unfolding exponent_def using assms by (intro floor_mono) (simp add: log_le_cancel_iff)

lemma ulp_pos [simp]: "0 < ulp p emin x"
  by (simp add: ulp_def)

lemma ulp_nonneg [simp]: "0 \<le> ulp p emin x"
  by (simp add: ulp_def)

lemma round_float_pos:
  "0 < x \<Longrightarrow> round_float p emin x = ulp p emin x * of_int (round_even (x / ulp p emin x))"
  by (simp add: round_float_def)

lemma two_powi_le: "a \<le> b \<Longrightarrow> (2::real) powi a \<le> 2 powi b"
  by (rule power_int_increasing) simp_all

lemma two_powi_quot: "(2::real) powi a / 2 powi b = 2 powi (a - b)"
  by (simp add: power_int_diff)

lemma two_powi_times_pow: "(2::real) powi a * 2 ^ n = 2 powi (a + int n)"
  by (simp add: power_int_add)

lemma two_powi_nat: "(2::real) powi (int n) = of_int (2 ^ n)"
  by simp

lemma round_float_nonneg:
  assumes "0 < x"
  shows "0 \<le> round_float p emin x"
proof -
  have "round_even 0 \<le> round_even (x / ulp p emin x)"
    using assms by (intro round_even_mono) (simp add: less_imp_le)
  then have "0 \<le> round_even (x / ulp p emin x)" by (simp add: round_even_def)
  then show ?thesis
    unfolding round_float_pos[OF assms] by simp
qed

lemma round_even_pow2: "round_even (2 ^ n) = 2 ^ n"
proof -
  have "round_even (of_int (2 ^ n)) = 2 ^ n" by (rule round_even_of_int)
  then show ?thesis by simp
qed

lemma round_float_lower:
  assumes "0 < x" "0 < p" "emin \<le> exponent x"
  shows "2 powi (exponent x) \<le> round_float p emin x"
proof -
  let ?u = "ulp p emin x"
  have u: "?u = 2 powi (exponent x - int p + 1)"
    using assms(3) by (simp add: ulp_def max_def)
  from assms(2) obtain n where n: "p = Suc n" by (cases p) auto
  have idx: "exponent x - int p + 1 + int n = exponent x" by (simp add: n)
  have eq: "?u * 2 ^ n = 2 powi (exponent x)"
    unfolding u two_powi_times_pow idx ..
  have "2 powi (exponent x) \<le> x"
    using exponent_bounds(1)[of x] assms(1) by simp
  then have "?u * 2 ^ n \<le> x" by (simp only: eq)
  then have "2 ^ n \<le> x / ?u"
    by (simp add: pos_le_divide_eq mult.commute)
  then have "round_even (2 ^ n) \<le> round_even (x / ?u)"
    by (rule round_even_mono)
  then have "(2::int) ^ n \<le> round_even (x / ?u)"
    by (simp only: round_even_pow2)
  then have "real_of_int (2 ^ n) \<le> real_of_int (round_even (x / ?u))"
    by (simp only: of_int_le_iff)
  then have "(2::real) ^ n \<le> real_of_int (round_even (x / ?u))" by simp
  then have "?u * 2 ^ n \<le> ?u * real_of_int (round_even (x / ?u))"
    by (rule mult_left_mono) simp
  then show ?thesis
    unfolding round_float_pos[OF assms(1)] eq .
qed

lemma round_float_upper:
  assumes "0 < x"
  shows "round_float p emin x \<le> 2 powi (max (exponent x) emin + 1)"
proof -
  let ?u = "ulp p emin x"
  let ?e = "max (exponent x) emin"
  have idx: "?e - int p + 1 + int p = ?e + 1" by simp
  have eq: "?u * 2 ^ p = 2 powi (?e + 1)"
    unfolding ulp_def two_powi_times_pow idx ..
  have "x < 2 powi (exponent x + 1)"
    using exponent_bounds(2)[of x] assms by simp
  also have "\<dots> \<le> 2 powi (?e + 1)"
    by (rule two_powi_le) simp
  finally have "x \<le> ?u * 2 ^ p" by (simp only: eq)
  then have "x / ?u \<le> 2 ^ p"
    by (simp add: pos_divide_le_eq mult.commute)
  then have "round_even (x / ?u) \<le> round_even (2 ^ p)"
    by (rule round_even_mono)
  then have "round_even (x / ?u) \<le> (2::int) ^ p"
    by (simp only: round_even_pow2)
  then have "real_of_int (round_even (x / ?u)) \<le> real_of_int (2 ^ p)"
    by (simp only: of_int_le_iff)
  then have "real_of_int (round_even (x / ?u)) \<le> (2::real) ^ p" by simp
  then have "?u * real_of_int (round_even (x / ?u)) \<le> ?u * 2 ^ p"
    by (rule mult_left_mono) simp
  then show ?thesis
    unfolding round_float_pos[OF assms] eq .
qed

lemma round_float_mono_pos:
  assumes "0 < x" "x \<le> y" "0 < p"
  shows "round_float p emin x \<le> round_float p emin y"
proof -
  from assms have y: "0 < y" by simp
  let ?ex = "max (exponent x) emin" and ?ey = "max (exponent y) emin"
  have le: "?ex \<le> ?ey"
    using exponent_mono[OF assms(1,2)] by simp
  show ?thesis
  proof (cases "?ex = ?ey")
    case True
    then have u: "ulp p emin x = ulp p emin y" by (simp add: ulp_def)
    have "x / ulp p emin y \<le> y / ulp p emin y"
      using assms(2) by (rule divide_right_mono) simp
    then have "round_even (x / ulp p emin y) \<le> round_even (y / ulp p emin y)"
      by (rule round_even_mono)
    then show ?thesis
      unfolding round_float_pos[OF assms(1)] round_float_pos[OF y] u
      by (simp add: mult_left_mono)
  next
    case False
    with le have lt: "?ex < ?ey" by linarith
    then have ey: "emin \<le> exponent y" "?ey = exponent y" by linarith+
    have "round_float p emin x \<le> 2 powi (?ex + 1)"
      using assms(1) by (rule round_float_upper)
    also have "\<dots> \<le> 2 powi (exponent y)"
    proof (rule two_powi_le)
      from lt ey show "?ex + 1 \<le> exponent y" by linarith
    qed
    also have "\<dots> \<le> round_float p emin y"
      using y assms(3) ey(1) by (rule round_float_lower)
    finally show ?thesis .
  qed
qed

lemma round_float_minus: "round_float p emin (- x) = - round_float p emin x"
  by (simp add: round_float_def ulp_def exponent_def)

lemma round_float_mono:
  assumes "x \<le> y" "0 < p"
  shows "round_float p emin x \<le> round_float p emin y"
proof -
  consider "0 < x" | "x \<le> 0" "0 \<le> y" | "y < 0" using assms(1) by linarith
  then show ?thesis
  proof cases
    case 1
    then show ?thesis using assms by (rule round_float_mono_pos)
  next
    case 2
    have "round_float p emin x \<le> 0"
    proof (cases "x = 0")
      case True
      then show ?thesis by (simp add: round_float_def)
    next
      case False
      with 2 have "0 < - x" by simp
      then have "0 \<le> round_float p emin (- x)" by (rule round_float_nonneg)
      then show ?thesis by (simp add: round_float_minus)
    qed
    moreover have "0 \<le> round_float p emin y"
    proof (cases "y = 0")
      case True
      then show ?thesis by (simp add: round_float_def)
    next
      case False
      with 2 have "0 < y" by simp
      then show ?thesis by (rule round_float_nonneg)
    qed
    ultimately show ?thesis by linarith
  next
    case 3
    with assms(1) have "0 < - y" "- y \<le> - x" by simp_all
    then have "round_float p emin (- y) \<le> round_float p emin (- x)"
      using assms(2) by (rule round_float_mono_pos)
    then show ?thesis by (simp add: round_float_minus)
  qed
qed

lemma compared_mono: "x \<le> y \<Longrightarrow> compared dt x \<le> compared dt y"
  by (cases dt) (simp_all add: compared.simps round_float_mono)

lemma exponent_int:
  assumes "n \<noteq> 0" "\<bar>n\<bar> < 2 ^ p"
  shows "0 \<le> exponent (of_int n)" "exponent (of_int n) < int p"
proof -
  let ?x = "real_of_int n"
  from assms(1) have x: "?x \<noteq> 0" by simp
  note b = exponent_bounds[OF x]
  have one: "1 \<le> \<bar>?x\<bar>"
  proof -
    from assms(1) have "1 \<le> \<bar>n\<bar>" by simp
    then have "real_of_int 1 \<le> real_of_int \<bar>n\<bar>" by (simp only: of_int_le_iff)
    then show ?thesis by simp
  qed
  show "0 \<le> exponent ?x"
  proof (rule ccontr)
    assume "\<not> 0 \<le> exponent ?x"
    then have "exponent ?x + 1 \<le> 0" by simp
    then have "(2::real) powi (exponent ?x + 1) \<le> 2 powi 0" by (rule two_powi_le)
    with b(2) one show False by simp
  qed
  show "exponent ?x < int p"
  proof (rule ccontr)
    assume "\<not> exponent ?x < int p"
    then have "int p \<le> exponent ?x" by simp
    then have "(2::real) powi (int p) \<le> 2 powi (exponent ?x)" by (rule two_powi_le)
    with b(1) have "(2::real) ^ p \<le> \<bar>?x\<bar>" by simp
    moreover have "\<bar>?x\<bar> < 2 ^ p"
    proof -
      from assms(2) have "real_of_int \<bar>n\<bar> < real_of_int (2 ^ p)"
        by (simp only: of_int_less_iff)
      then show ?thesis by simp
    qed
    ultimately show False by simp
  qed
qed

lemma round_float_int:
  assumes "\<bar>n\<bar> < 2 ^ p" "emin \<le> 0"
  shows "round_float p emin (of_int n) = of_int n"
proof (cases "n = 0")
  case True
  then show ?thesis by (simp add: round_float_def)
next
  case False
  let ?x = "real_of_int n"
  let ?e = "exponent ?x"
  from exponent_int[OF False assms(1)] have e: "0 \<le> ?e" "?e < int p" .
  define k where "k = nat (int p - 1 - ?e)"
  have k: "?e - int p + 1 = - int k" using e by (simp add: k_def)
  have m: "max ?e emin = ?e" using e assms(2) by simp
  have u: "ulp p emin ?x = 1 / 2 ^ k"
    unfolding ulp_def m k by (simp add: power_int_minus divide_inverse)
  have "\<bar>?x\<bar> / ulp p emin ?x = of_int (\<bar>n\<bar> * 2 ^ k)"
    unfolding u by simp
  then have "round_even (\<bar>?x\<bar> / ulp p emin ?x) = \<bar>n\<bar> * 2 ^ k"
    by (simp only: round_even_of_int)
  then have "ulp p emin ?x * of_int (round_even (\<bar>?x\<bar> / ulp p emin ?x)) = \<bar>?x\<bar>"
    unfolding u by simp
  then show ?thesis
    using False by (simp add: round_float_def sgn_mult_abs)
qed

lemma compared_of_int:
  "\<bar>n\<bar> < 2 ^ 24 \<Longrightarrow> compared dt (of_int n) = of_int n"
proof -
  assume a: "\<bar>n\<bar> < 2 ^ 24"
  have "(2::int) ^ 24 \<le> 2 ^ 53" by simp
  with a have b: "\<bar>n\<bar> < 2 ^ 53" by linarith
  have f32: "round_float 24 (- 126) (of_int n) = of_int n"
    by (rule round_float_int) (use a in simp_all)
  have f64: "round_float 53 (- 1022) (of_int n) = of_int n"
    by (rule round_float_int) (use b in simp_all)
  show ?thesis by (cases dt) (simp_all only: compared.simps f32 f64)
qed

lemma compared_numeral [simp]:
  "numeral k < (2::int) ^ 24 \<Longrightarrow> compared dt (numeral k) = numeral k"
  using compared_of_int[of "numeral k" dt] by simp

lemma compared_0 [simp]: "compared dt 0 = 0"
  by (cases dt) (simp_all add: compared.simps round_float_def)

lemma compared_1 [simp]: "compared dt 1 = 1"
  using compared_of_int[of 1 dt] by simp

lemma round_float_eval:
  assumes "x \<noteq> 0" "2 powi e \<le> \<bar>x\<bar>" "\<bar>x\<bar> < 2 powi (e + 1)"
  shows "round_float p emin x =
     sgn x * (2 powi (max e emin - int p + 1) *
       of_int (round_even (\<bar>x\<bar> / 2 powi (max e emin - int p + 1))))"
  using assms(1) exponent_eqI[OF assms(2,3)] by (simp add: round_float_def ulp_def)

text \<open>
  An \<^verbatim>\<open>int64\<close> element that \<^verbatim>\<open>float64\<close> does not hold is rounded for the
  comparison: \<open>2 ^ 53 + 1\<close> is compared as \<open>2 ^ 53\<close>.
\<close>

lemma compared_int64_example: "compared Int64 9007199254740993 = 9007199254740992"
  unfolding compared.simps
  by (subst round_float_eval[where e = "53"]) (simp_all add: round_even_def Let_def)

lemma compared_float32_tenth [simp]: "compared Float32 float32_tenth = float32_tenth"
  unfolding float32_tenth_def compared.simps
  by (subst round_float_eval[where e = "-4"]) (simp_all add: round_even_def Let_def power_int_minus)

lemma compared_float64_tenth [simp]: "compared Float32 float64_tenth = float32_tenth"
  unfolding float32_tenth_def float64_tenth_def compared.simps
  by (subst round_float_eval[where e = "-4"]) (simp_all add: round_even_def Let_def power_int_minus)

lemma compared_half [simp]: "compared Float32 (1 / 2) = 1 / 2"
  unfolding compared.simps
  by (subst round_float_eval[where e = "-1"]) (simp_all add: round_even_def Let_def power_int_minus)


section \<open>Basic facts\<close>

lemma wf_cloudD:
  assumes "wf_cloud self"
  obtains dx dy dv s xs ys vs where
    "self ''_lon'' = Some (NdArray dx s xs)" "self ''_lat'' = Some (NdArray dy s ys)"
    "self ''_data'' = Some (NdArray dv s vs)"
    "length xs = prod_list s" "length ys = prod_list s" "length vs = prod_list s"
proof -
  from assms obtain a b c where abc: "self ''_lon'' = Some a" "self ''_lat'' = Some b" "self ''_data'' = Some c"
    and wf: "wf_pyval a" "wf_pyval b" "wf_pyval c"
    by (auto simp: wf_cloud_def wf_attr_def split: option.splits)
  from assms abc have sh: "\<not> isl (shape a)" "shape b = shape a" "shape c = shape a"
    by (auto simp: wf_cloud_def cloud_inv_def attr_shape_def getattr_def try_bind_def)
  from sh(1) obtain dx s xs where a: "a = NdArray dx s xs" by (cases a) auto
  from sh(2) a obtain dy ys where b: "b = NdArray dy s ys" by (cases b) auto
  from sh(3) a obtain dv vs where c: "c = NdArray dv s vs" by (cases c) auto
  show thesis using that[of dx s xs dy ys dv vs] abc wf a b c by simp
qed

lemma wf_cloudI:
  "self ''_lon'' = Some (NdArray dx s xs) \<Longrightarrow> self ''_lat'' = Some (NdArray dy s ys) \<Longrightarrow>
   self ''_data'' = Some (NdArray dv s vs) \<Longrightarrow>
   length xs = prod_list s \<Longrightarrow> length ys = prod_list s \<Longrightarrow> length vs = prod_list s \<Longrightarrow>
   wf_cloud self"
  by (simp add: wf_cloud_def cloud_inv_def attr_shape_def getattr_def try_bind_def wf_attr_def)

lemma inside_mask_ok:
  assumes "self ''_lon'' = Some (NdArray dx s xs)" "self ''_lat'' = Some (NdArray dy s ys)"
    and "4 \<le> length bounds"
  shows "inside_mask self bounds = Inr (s, box_mask dx dy bounds xs ys)"
proof -
  from assms(3) have "0 < length bounds" "1 < length bounds" "2 < length bounds" "3 < length bounds"
    by auto
  with assms(1,2) show ?thesis
    by (simp add: inside_mask_def getattr_def try_bind_def index_bounds_def and_mask_def
        box_mask_def)
qed

lemma trim_ok:
  assumes "self ''_lon'' = Some (NdArray dx s xs)" "self ''_lat'' = Some (NdArray dy s ys)"
    "self ''_data'' = Some (NdArray dv s vs)" "4 \<le> length bounds"
  shows "trim self bounds =
     (Inr (), self(''_lon'' \<mapsto> NdArray dx [length (select (box_mask dx dy bounds xs ys) xs)] (select (box_mask dx dy bounds xs ys) xs),
                  ''_lat'' \<mapsto> NdArray dy [length (select (box_mask dx dy bounds xs ys) ys)] (select (box_mask dx dy bounds xs ys) ys),
                  ''_data'' \<mapsto> NdArray dv [length (select (box_mask dx dy bounds xs ys) vs)] (select (box_mask dx dy bounds xs ys) vs)))"
  using assms
  by (simp add: trim_def inside_mask_ok getattr_def try_bind_def Let_def)

lemma length_select:
  "length bs = length xs \<Longrightarrow> length (select bs xs) = length (filter id bs)"
  unfolding select_def
  by (induction bs xs rule: list_induct2) auto

lemma length_box_mask:
  "length xs = length ys \<Longrightarrow> length (box_mask dx dy bounds xs ys) = length xs"
  by (simp add: box_mask_def)

lemma select_Cons [simp]:
  "select (b # bs) (x # xs) = (if b then x # select bs xs else select bs xs)"
  by (simp add: select_def)

lemma select_Nil [simp]: "select [] xs = []" "select bs [] = []"
  by (simp_all add: select_def)

lemma select_zip:
  "length xs = length bs \<Longrightarrow> length ys = length bs \<Longrightarrow>
   select bs (zip xs ys) = zip (select bs xs) (select bs ys)"
proof (induction bs arbitrary: xs ys)
  case Nil
  then show ?case by simp
next
  case (Cons b bs)
  then obtain x xs' y ys' where "xs = x # xs'" "ys = y # ys'"
    by (cases xs; cases ys) auto
  with Cons show ?case by simp
qed

lemma select_filter:
  "select (map P xs) xs = filter P xs"
  by (induction xs) auto

lemma select_subseq: "subseq (select bs xs) xs"
proof (induction bs arbitrary: xs)
  case Nil
  then show ?case by simp
next
  case (Cons b bs)
  then show ?case by (cases xs) auto
qed

lemma box_mask_points:
  "length xs = length ys \<Longrightarrow> length ys = length vs \<Longrightarrow>
   box_mask dx dy [xmin, xmax, ymin, ymax] xs ys =
     map (compared_inside dx dy [xmin, xmax, ymin, ymax]) (zip xs (zip ys vs))"
  by (induction xs ys vs rule: list_induct3) (auto simp: box_mask_def)

lemma points_trim:
  assumes "wf_cloud self"
  shows "points (snd (trim self [xmin, xmax, ymin, ymax])) =
         filter (compared_inside (attr_dtype self ''_lon'') (attr_dtype self ''_lat'')
                   [xmin, xmax, ymin, ymax]) (points self)"
proof -
  let ?b = "[xmin, xmax, ymin, ymax]"
  from assms obtain dx dy dv s xs ys vs where a:
    "self ''_lon'' = Some (NdArray dx s xs)" "self ''_lat'' = Some (NdArray dy s ys)"
    "self ''_data'' = Some (NdArray dv s vs)"
    and l: "length xs = prod_list s" "length ys = prod_list s" "length vs = prod_list s"
    by (rule wf_cloudD)
  let ?m = "box_mask dx dy ?b xs ys"
  have lm: "length xs = length ?m" "length ys = length ?m" "length vs = length ?m"
    using l by (simp_all add: length_box_mask)
  have "points (snd (trim self ?b)) = zip (select ?m xs) (zip (select ?m ys) (select ?m vs))"
    by (simp add: trim_ok[OF a] points_def elements_def)
  also have "\<dots> = select ?m (zip xs (zip ys vs))"
    using lm by (simp add: select_zip)
  also have "\<dots> = filter (compared_inside dx dy ?b) (zip xs (zip ys vs))"
    using l by (simp add: box_mask_points[of xs ys vs] select_filter)
  finally show ?thesis using a by (simp add: points_def elements_def attr_dtype_def)
qed

lemma wf_cloud_trim:
  assumes "wf_cloud self"
  shows "wf_cloud (snd (trim self bounds))"
proof (cases "4 \<le> length bounds")
  case True
  from assms obtain dx dy dv s xs ys vs where a:
    "self ''_lon'' = Some (NdArray dx s xs)" "self ''_lat'' = Some (NdArray dy s ys)"
    "self ''_data'' = Some (NdArray dv s vs)"
    and l: "length xs = prod_list s" "length ys = prod_list s" "length vs = prod_list s"
    by (rule wf_cloudD)
  let ?m = "box_mask dx dy bounds xs ys"
  have lm: "length ?m = length xs" "length ?m = length ys" "length ?m = length vs"
    using l by (simp_all add: length_box_mask)
  have k: "length (select ?m xs) = length (filter id ?m)"
    "length (select ?m ys) = length (filter id ?m)"
    "length (select ?m vs) = length (filter id ?m)"
    by (rule length_select, rule lm)+
  show ?thesis
    unfolding trim_ok[OF a True] snd_conv
    by (rule wf_cloudI[where s = "[length (filter id ?m)]" and xs = "select ?m xs"
          and ys = "select ?m ys" and vs = "select ?m vs"])
       (simp_all add: k)
next
  case False
  have "index_bounds bounds 3 = Inl IndexError"
    using False by (simp add: index_bounds_def)
  then have "isl (inside_mask self bounds)"
    by (simp add: inside_mask_def try_bind_def split: sum.splits)
  then have "snd (trim self bounds) = self"
    by (auto simp: trim_def split: sum.splits)
  with assms show ?thesis by simp
qed

lemma Cloud_init_example:
  "Cloud_init (NdArray Float64 [3] [10, 20, 30]) (NdArray Float64 [3] [1, 2, 3]) (NdArray Float64 [3] [7, 8, 9])
     = Inr example_cloud"
  by (simp add: Cloud_init_def try_bind_def example_cloud_def)

lemma wf_cloud_example: "wf_cloud example_cloud"
  by (simp add: wf_cloud_def cloud_inv_def attr_shape_def getattr_def try_bind_def wf_attr_def
      example_cloud_def)

lemma wf_cloud_init:
  assumes "Cloud_init lon lat data = Inr self" "wf_pyval lon" "wf_pyval lat" "wf_pyval data"
  shows "wf_cloud self"
proof -
  from assms(1) obtain dx dy dv s xs ys vs where
    "lon = NdArray dx s xs" "lat = NdArray dy s ys" "data = NdArray dv s vs"
    and self: "self = [''_lon'' \<mapsto> lon, ''_lat'' \<mapsto> lat, ''_data'' \<mapsto> data]"
    by (cases lon; cases lat; cases data)
       (auto simp: Cloud_init_def try_bind_def split: if_splits)
  with assms(2-4) show ?thesis
    by (intro wf_cloudI[where s = s and xs = xs and ys = ys and vs = vs]) simp_all
qed

lemma setData_cases:
  assumes "self ''_lon'' = Some (NdArray dx s xs)"
  shows "setData self data =
     (case data of
        NdArray dd sd vs \<Rightarrow>
          if sd = s then (Inr (), self(''_data'' \<mapsto> data)) else (Inl DataSetException, self)
      | _ \<Rightarrow> (Inl AttributeError, self))"
  using assms by (cases data) (simp_all add: setData_def try_bind_def getattr_def)

lemma wf_cloud_setData:
  assumes "wf_cloud self" "wf_pyval data"
  shows "wf_cloud (snd (setData self data))"
proof -
  from assms(1) obtain dx dy dv s xs ys vs where a:
    "self ''_lon'' = Some (NdArray dx s xs)" "self ''_lat'' = Some (NdArray dy s ys)"
    "self ''_data'' = Some (NdArray dv s vs)"
    and l: "length xs = prod_list s" "length ys = prod_list s" "length vs = prod_list s"
    by (rule wf_cloudD)
  show ?thesis
  proof (cases "\<exists>dd ds. data = NdArray dd s ds")
    case True
    then obtain dd ds where d: "data = NdArray dd s ds" by blast
    with assms(2) have "length ds = prod_list s" by simp
    with a l d show ?thesis
      by (intro wf_cloudI[where s = s and xs = xs and ys = ys and vs = ds])
         (simp_all add: setData_cases[of self dx s xs, OF a(1)])
  next
    case False
    then have "snd (setData self data) = self"
      by (cases data) (auto simp: setData_cases[of self dx s xs, OF a(1)])
    with assms(1) show ?thesis by simp
  qed
qed

lemma wf_cloud_state_after:
  "wf_cloud self \<Longrightarrow> wf_call c \<Longrightarrow> wf_cloud (state_after self c)"
  by (cases c) (simp_all add: wf_cloud_setData wf_cloud_trim)

lemma wf_cloud_calls:
  "wf_cloud self \<Longrightarrow> list_all wf_call calls \<Longrightarrow> wf_cloud (foldl state_after self calls)"
  by (induction calls arbitrary: self) (simp_all add: wf_cloud_state_after)

lemma lons_setData: "snd (setData self data) ''_lons'' = self ''_lons''"
  by (simp add: setData_def split: sum.splits)

lemma lons_trim: "snd (trim self bounds) ''_lons'' = self ''_lons''"
  by (simp add: trim_def Let_def split: sum.splits)

lemma lons_state_after: "state_after self c ''_lons'' = self ''_lons''"
  by (cases c) (simp_all add: lons_setData lons_trim)

lemma lons_calls: "foldl state_after self calls ''_lons'' = self ''_lons''"
  by (induction calls arbitrary: self) (simp_all add: lons_state_after)

lemma lons_init: "Cloud_init lon lat data = Inr self \<Longrightarrow> self ''_lons'' = None"
  by (auto simp: Cloud_init_def try_bind_def split: sum.splits if_splits)

section \<open>Nearest-neighbour lookup\<close>

text \<open>
  Claim C1 says that \<^verbatim>\<open>getValue(lat, lon, method='nearest')\<close> returns the element of
  the stored data at the index that minimises the geodesic distance to the query point.
  The method does not get that far. It reads the attributes \<^verbatim>\<open>_lons\<close> and
  \<^verbatim>\<open>_lats\<close>, while the constructor and \<^verbatim>\<open>trim\<close> assign \<^verbatim>\<open>_lon\<close> and
  \<^verbatim>\<open>_lat\<close>: for every Cloud that the constructor built, after any sequence of calls,
  for every query point and every distance function, the call raises AttributeError
  and returns no value.
\<close>

theorem getValue_nearest_raises:
  "Cloud_init lon lat data = Inr self \<Longrightarrow>
   getValue distance (foldl state_after self calls) qlat qlon ''nearest'' = Inl AttributeError"
  by (simp add: getValue_def getattr_def try_bind_def lons_calls lons_init)

theorem getValue_nearest_raises_witness:
  "Cloud_init (NdArray Float64 [3] [10, 20, 30]) (NdArray Float64 [3] [1, 2, 3]) (NdArray Float64 [3] [7, 8, 9])
     = Inr example_cloud \<and>
   getValue (\<lambda>lon lat lons lats. Inr lons) example_cloud 2 20 ''nearest'' = Inl AttributeError"
  using getValue_nearest_raises [OF Cloud_init_example, of "\<lambda>lon lat lons lats. Inr lons" "[]" 2 20]
    Cloud_init_example
  by simp

section \<open>Trimming to a box\<close>

lemma compared_inside_not_outside:
  assumes "compared_inside dx dy [xmin, xmax, ymin, ymax] p"
  shows "\<not> strictly_outside [xmin, xmax, ymin, ymax] p"
proof -
  obtain x y v where p: "p = (x, y, v)" by (cases p)
  have lt: "a < b" if "compared dt a < compared dt b" for dt a b
  proof (rule ccontr)
    assume "\<not> a < b"
    then have "b \<le> a" by simp
    then have "compared dt b \<le> compared dt a" by (rule compared_mono)
    with that show False by simp
  qed
  from assms have "xmin < x" "x < xmax" "ymin < y" "y < ymax"
    unfolding p by (auto dest: lt)
  then show ?thesis unfolding p by simp
qed


lemma filter_inside_outside:
  "filter (strictly_outside [xmin, xmax, ymin, ymax])
     (filter (compared_inside dx dy [xmin, xmax, ymin, ymax]) ps) = []"
  by (auto simp: filter_empty_conv dest: compared_inside_not_outside)


lemma exact_compared_inside:
  assumes "exact_comparisons self [xmin, xmax, ymin, ymax]" "p \<in> set (points self)"
  shows "compared_inside (attr_dtype self ''_lon'') (attr_dtype self ''_lat'')
           [xmin, xmax, ymin, ymax] p = strictly_inside [xmin, xmax, ymin, ymax] p"
proof -
  obtain x y v where p: "p = (x, y, v)" by (cases p)
  from assms(2) have "x \<in> set (elements self ''_lon'')" "y \<in> set (elements self ''_lat'')"
    unfolding p points_def by (auto dest: set_zip_leftD set_zip_rightD)
  with assms(1) have
    "compared (attr_dtype self ''_lon'') x = x" "compared (attr_dtype self ''_lat'') y = y"
    "compared (attr_dtype self ''_lon'') xmin = xmin"
    "compared (attr_dtype self ''_lon'') xmax = xmax"
    "compared (attr_dtype self ''_lat'') ymin = ymin"
    "compared (attr_dtype self ''_lat'') ymax = ymax"
    by (auto simp: list_all_iff unrounded_def)
  then show ?thesis unfolding p by simp
qed

lemma fst_trim_ok:
  assumes "wf_cloud self" "4 \<le> length bounds"
  shows "fst (trim self bounds) = Inr ()"
proof -
  from assms(1) obtain dx dy dv s xs ys vs where a:
    "self ''_lon'' = Some (NdArray dx s xs)" "self ''_lat'' = Some (NdArray dy s ys)"
    "self ''_data'' = Some (NdArray dv s vs)"
    by (rule wf_cloudD)
  show ?thesis by (simp add: trim_ok[OF a assms(2)])
qed

lemma wf_cloud_float32: "wf_cloud float32_cloud"
  by (simp add: wf_cloud_def cloud_inv_def attr_shape_def getattr_def try_bind_def wf_attr_def
      float32_cloud_def)

lemma Cloud_init_float32:
  "Cloud_init (NdArray Float32 [2] [float32_tenth, 1 / 2]) (NdArray Float32 [2] [1, 1])
     (NdArray Float32 [2] [7, 8]) = Inr float32_cloud"
  by (simp add: Cloud_init_def try_bind_def float32_cloud_def)

text \<open>
  As stated, claim C4 has \<^verbatim>\<open>trim\<close> retain every point that lies strictly inside the
  box. The mask is computed by numpy's comparison, which converts the bound to the
  element type of the array. For the \<^verbatim>\<open>float32\<close> longitudes
  \<^verbatim>\<open>[float32(0.1), 0.5]\<close> and the box \<^verbatim>\<open>(0.1, 1.0, 0.0, 2.0)\<close> the first point is
  strictly inside, since \<^verbatim>\<open>float32(0.1)\<close> is greater than the Python float
  \<^verbatim>\<open>0.1\<close>; the bound rounds to \<^verbatim>\<open>float32(0.1)\<close>, the comparison is false, and
  \<^verbatim>\<open>trim\<close> removes the point.
\<close>

theorem trim_float32_counterexample:
  "Cloud_init (NdArray Float32 [2] [float32_tenth, 1 / 2]) (NdArray Float32 [2] [1, 1])
     (NdArray Float32 [2] [7, 8]) = Inr float32_cloud \<and>
   strictly_inside [float64_tenth, 1, 0, 2] (float32_tenth, 1, 7) \<and>
   points float32_cloud = [(float32_tenth, 1, 7), (1 / 2, 1, 8)] \<and>
   points (snd (trim float32_cloud [float64_tenth, 1, 0, 2])) = [(1 / 2, 1, 8)]"
proof -
  have i: "strictly_inside [float64_tenth, 1, 0, 2] (float32_tenth, 1, 7)"
    by (simp add: float32_tenth_def float64_tenth_def)
  have p: "points float32_cloud = [(float32_tenth, 1, 7), (1 / 2, 1, 8)]"
    by (simp add: points_def elements_def float32_cloud_def)
  have d: "attr_dtype float32_cloud ''_lon'' = Float32"
    "attr_dtype float32_cloud ''_lat'' = Float32"
    by (simp_all add: attr_dtype_def float32_cloud_def)
  have h: "float32_tenth < 1 / 2" by (simp add: float32_tenth_def)
  have t: "points (snd (trim float32_cloud [float64_tenth, 1, 0, 2])) = [(1 / 2, 1, 8)]"
    unfolding points_trim[OF wf_cloud_float32] p d using h by simp
  from Cloud_init_float32 i p t show ?thesis by blast
qed

text \<open>
  Claim C4, amended: for every Cloud and every box \<open>(xmin, xmax, ymin, ymax)\<close>,
  \<^verbatim>\<open>trim\<close> returns normally and leaves a well-formed Cloud; no point that lies strictly
  outside the box is left in it; the points left are, in the same order and number,
  the points that lie strictly inside the box as numpy compares, coordinates and
  bounds converted to the element type of the comparison. Where that conversion changes
  no coordinate and no bound, as for \<^verbatim>\<open>float64\<close> arrays and Python floats, the points
  strictly inside the box are all retained.
\<close>

theorem trim_box_as_compared:
  assumes "wf_cloud self"
  shows "fst (trim self [xmin, xmax, ymin, ymax]) = Inr () \<and>
         wf_cloud (snd (trim self [xmin, xmax, ymin, ymax])) \<and>
         filter (strictly_outside [xmin, xmax, ymin, ymax])
           (points (snd (trim self [xmin, xmax, ymin, ymax]))) = [] \<and>
         points (snd (trim self [xmin, xmax, ymin, ymax])) =
           filter (compared_inside (attr_dtype self ''_lon'') (attr_dtype self ''_lat'')
                     [xmin, xmax, ymin, ymax]) (points self) \<and>
         (exact_comparisons self [xmin, xmax, ymin, ymax] \<longrightarrow>
            filter (strictly_inside [xmin, xmax, ymin, ymax])
              (points (snd (trim self [xmin, xmax, ymin, ymax]))) =
            filter (strictly_inside [xmin, xmax, ymin, ymax]) (points self))"
proof -
  let ?b = "[xmin, xmax, ymin, ymax]"
  let ?c = "compared_inside (attr_dtype self ''_lon'') (attr_dtype self ''_lat'') ?b"
  have ok: "fst (trim self ?b) = Inr ()"
    using assms by (simp add: fst_trim_ok)
  have wf: "wf_cloud (snd (trim self ?b))"
    using assms by (rule wf_cloud_trim)
  have out: "filter (strictly_outside ?b) (points (snd (trim self ?b))) = []"
    unfolding points_trim[OF assms] by (rule filter_inside_outside)
  have pts: "points (snd (trim self ?b)) = filter ?c (points self)"
    by (rule points_trim[OF assms])
  have ins: "filter (strictly_inside ?b) (points (snd (trim self ?b))) =
             filter (strictly_inside ?b) (points self)"
    if e: "exact_comparisons self ?b"
  proof -
    have "filter (strictly_inside ?b) (filter ?c (points self)) =
          filter (\<lambda>p. ?c p \<and> strictly_inside ?b p) (points self)"
      by (rule filter_filter)
    also have "\<dots> = filter (strictly_inside ?b) (points self)"
      by (rule filter_cong) (auto simp: exact_compared_inside[OF e])
    finally show ?thesis unfolding pts .
  qed
  from ok wf out pts ins show ?thesis by blast
qed

theorem trim_box_as_compared_witness:
  "wf_cloud example_cloud \<and>
   exact_comparisons example_cloud [15, 40, 0, 3] \<and>
   fst (trim example_cloud [15, 40, 0, 3]) = Inr () \<and>
   filter (strictly_outside [15, 40, 0, 3]) (points example_cloud) = [(10, 1, 7)] \<and>
   filter (strictly_inside [15, 40, 0, 3]) (points example_cloud) = [(20, 2, 8)] \<and>
   points (snd (trim example_cloud [15, 40, 0, 3])) = [(20, 2, 8)]"
proof -
  have p: "points example_cloud = [(10, 1, 7), (20, 2, 8), (30, 3, 9)]"
    by (simp add: points_def elements_def example_cloud_def)
  have d: "attr_dtype example_cloud ''_lon'' = Float64"
    "attr_dtype example_cloud ''_lat'' = Float64"
    by (simp_all add: attr_dtype_def example_cloud_def)
  have e: "exact_comparisons example_cloud [15, 40, 0, 3]"
    by (simp add: d unrounded_def elements_def example_cloud_def)
  from trim_box_as_compared [OF wf_cloud_example, of 15 40 0 3] wf_cloud_example e
  show ?thesis unfolding p d by simp
qed



text \<open>
  Claim C10: for every Cloud and every box, \<^verbatim>\<open>trim\<close> selects from the longitudes,
  from the latitudes and from the values with one and the same mask, which has one flag
  per point. So the points left are the points at the selected positions, each with the
  longitude, latitude and value it had, and they keep their relative order: they form a
  subsequence of the points before the call.
\<close>

theorem trim_same_mask:
  assumes "wf_cloud self"
  shows "length (mask_of self [xmin, xmax, ymin, ymax]) = length (points self) \<and>
         elements (snd (trim self [xmin, xmax, ymin, ymax])) ''_lon'' =
           select (mask_of self [xmin, xmax, ymin, ymax]) (elements self ''_lon'') \<and>
         elements (snd (trim self [xmin, xmax, ymin, ymax])) ''_lat'' =
           select (mask_of self [xmin, xmax, ymin, ymax]) (elements self ''_lat'') \<and>
         elements (snd (trim self [xmin, xmax, ymin, ymax])) ''_data'' =
           select (mask_of self [xmin, xmax, ymin, ymax]) (elements self ''_data'') \<and>
         points (snd (trim self [xmin, xmax, ymin, ymax])) =
           select (mask_of self [xmin, xmax, ymin, ymax]) (points self) \<and>
         subseq (points (snd (trim self [xmin, xmax, ymin, ymax]))) (points self)"
proof -
  let ?b = "[xmin, xmax, ymin, ymax]"
  from assms obtain dx dy dv s xs ys vs where a:
    "self ''_lon'' = Some (NdArray dx s xs)" "self ''_lat'' = Some (NdArray dy s ys)"
    "self ''_data'' = Some (NdArray dv s vs)"
    and l: "length xs = prod_list s" "length ys = prod_list s" "length vs = prod_list s"
    by (rule wf_cloudD)
  have b4: "4 \<le> length ?b" by simp
  let ?m = "box_mask dx dy ?b xs ys"
  have m: "mask_of self ?b = ?m"
    by (simp add: mask_of_def inside_mask_ok[OF a(1,2) b4])
  have lm: "length xs = length ?m" "length ys = length ?m" "length vs = length ?m"
    using l by (simp_all add: length_box_mask)
  have e: "elements self ''_lon'' = xs" "elements self ''_lat'' = ys"
    "elements self ''_data'' = vs"
    using a by (simp_all add: elements_def)
  have e': "elements (snd (trim self ?b)) ''_lon'' = select ?m xs"
    "elements (snd (trim self ?b)) ''_lat'' = select ?m ys"
    "elements (snd (trim self ?b)) ''_data'' = select ?m vs"
    by (simp_all add: trim_ok[OF a b4] elements_def)
  have p: "points (snd (trim self ?b)) = select ?m (points self)"
    unfolding points_def e e' using lm by (simp add: select_zip)
  have "length ?m = length (points self)"
    unfolding points_def e using lm by simp
  moreover have "subseq (points (snd (trim self ?b))) (points self)"
    unfolding p by (rule select_subseq)
  ultimately show ?thesis
    unfolding m e e' p by simp
qed

theorem trim_same_mask_witness:
  "wf_cloud example_cloud \<and>
   mask_of example_cloud [15, 40, 0, 3] = [False, True, False] \<and>
   elements (snd (trim example_cloud [15, 40, 0, 3])) ''_lon'' = select [False, True, False] [10, 20, 30] \<and>
   elements (snd (trim example_cloud [15, 40, 0, 3])) ''_lat'' = select [False, True, False] [1, 2, 3] \<and>
   elements (snd (trim example_cloud [15, 40, 0, 3])) ''_data'' = select [False, True, False] [7, 8, 9] \<and>
   points (snd (trim example_cloud [15, 40, 0, 3])) = [(20, 2, 8)]"
proof -
  have m: "mask_of example_cloud [15, 40, 0, 3] = [False, True, False]"
    by (simp add: mask_of_def inside_mask_def getattr_def try_bind_def index_bounds_def
        and_mask_def example_cloud_def)
  show ?thesis
    using trim_same_mask [OF wf_cloud_example, of 15 40 0 3] wf_cloud_example
    unfolding m
    by (simp add: points_def elements_def example_cloud_def)
qed

section \<open>Replacing the values\<close>

lemma cloud_invD:
  assumes "cloud_inv self"
  obtains dx s xs where "self ''_lon'' = Some (NdArray dx s xs)" "attr_shape self ''_lon'' = Inr s"
proof -
  from assms have "\<not> isl (attr_shape self ''_lon'')" by (simp add: cloud_inv_def)
  then obtain a where a: "self ''_lon'' = Some a" "\<not> isl (shape a)"
    by (auto simp: attr_shape_def getattr_def try_bind_def split: option.splits)
  then obtain dx s xs where "a = NdArray dx s xs" by (cases a) auto
  with a show thesis by (intro that[of dx s xs]) (simp_all add: attr_shape_def getattr_def try_bind_def)
qed

lemma cloud_inv_example: "cloud_inv example_cloud"
  using wf_cloud_example by (simp add: wf_cloud_def)

text \<open>
  The repository's test of \<^verbatim>\<open>setData\<close> on the sibling class (\<^verbatim>\<open>test_setData\<close> in
  \<^verbatim>\<open>grid2d_test.py\<close>) passes the string \<^verbatim>\<open>'fred'\<close> and expects DataSetException.
  A string has no \<^verbatim>\<open>shape\<close> attribute, and \<^verbatim>\<open>Cloud.setData\<close> reads
  \<^verbatim>\<open>data.shape\<close> without a check of the type: on the Cloud built from three arrays
  of three elements, \<^verbatim>\<open>setData('fred')\<close> raises AttributeError, which is not
  DataSetException.
\<close>

lemma setData_fred_raises_AttributeError:
  "Cloud_init (NdArray Float64 [3] [10, 20, 30]) (NdArray Float64 [3] [1, 2, 3])
     (NdArray Float64 [3] [7, 8, 9]) = Inr example_cloud \<and>
   fst (setData example_cloud (PyStr ''fred'')) = Inl AttributeError \<and>
   fst (setData example_cloud (PyStr ''fred'')) \<noteq> Inl DataSetException"
  using Cloud_init_example
  by (simp add: setData_def try_bind_def)

text \<open>
  Claim C2 says that \<^verbatim>\<open>setData(data)\<close> succeeds if and only if the shape of
  \<^verbatim>\<open>data\<close> is the shape of the stored coordinate arrays, and that every other input,
  non-arrays included, raises DataSetException. What the method does, for every Cloud
  and every input: it returns normally if and only if \<^verbatim>\<open>data\<close> has a shape and that
  shape is the shape of the stored coordinate arrays, and it then replaces the stored
  values by \<^verbatim>\<open>data\<close>; for an array of any other shape it raises DataSetException;
  for an input that has no shape (a list, a float, a string, None) it raises
  AttributeError and not DataSetException, the check of the type being missing. In the
  last two cases the Cloud is unchanged.
\<close>

theorem setData_shape_check:
  assumes "cloud_inv self"
  shows "(fst (setData self data) = Inr () \<longleftrightarrow> shape data = attr_shape self ''_lon'') \<and>
         (fst (setData self data) = Inr () \<longrightarrow>
            snd (setData self data) = self(''_data'' \<mapsto> data)) \<and>
         (\<not> isl (shape data) \<and> shape data \<noteq> attr_shape self ''_lon'' \<longrightarrow>
            setData self data = (Inl DataSetException, self)) \<and>
         (isl (shape data) \<longrightarrow> setData self data = (Inl AttributeError, self))"
proof -
  from assms obtain dx s xs where a: "self ''_lon'' = Some (NdArray dx s xs)"
    and s: "attr_shape self ''_lon'' = Inr s"
    by (rule cloud_invD)
  show ?thesis
    unfolding s by (cases data) (auto simp: setData_cases[of self dx s xs, OF a])
qed

theorem setData_shape_check_witness:
  "cloud_inv example_cloud \<and>
   setData example_cloud (NdArray Float64 [3] [4, 5, 6]) =
     (Inr (), example_cloud(''_data'' \<mapsto> NdArray Float64 [3] [4, 5, 6])) \<and>
   setData example_cloud (NdArray Float64 [2] [4, 5]) = (Inl DataSetException, example_cloud) \<and>
   setData example_cloud (PyList [4, 5, 6]) = (Inl AttributeError, example_cloud) \<and>
   setData example_cloud (PyStr ''fred'') = (Inl AttributeError, example_cloud)"
proof -
  have s: "attr_shape example_cloud ''_lon'' = Inr [3]"
    by (simp add: attr_shape_def getattr_def try_bind_def example_cloud_def)
  have 1: "setData example_cloud (NdArray Float64 [3] [4, 5, 6]) =
     (Inr (), example_cloud(''_data'' \<mapsto> NdArray Float64 [3] [4, 5, 6]))"
    using setData_shape_check [OF cloud_inv_example, of "NdArray Float64 [3] [4, 5, 6]"]
    by (simp add: s prod_eq_iff)
  have 2: "setData example_cloud (NdArray Float64 [2] [4, 5]) = (Inl DataSetException, example_cloud)"
    using setData_shape_check [OF cloud_inv_example, of "NdArray Float64 [2] [4, 5]"]
    by (simp add: s)
  have 3: "setData example_cloud (PyList [4, 5, 6]) = (Inl AttributeError, example_cloud)"
    using setData_shape_check [OF cloud_inv_example, of "PyList [4, 5, 6]"]
    by simp
  have 4: "setData example_cloud (PyStr ''fred'') = (Inl AttributeError, example_cloud)"
    using setData_shape_check [OF cloud_inv_example, of "PyStr ''fred''"]
    by simp
  from cloud_inv_example 1 2 3 4 show ?thesis by blast
qed

section \<open>Construction\<close>

text \<open>
  Claim C3: for all arrays \<^verbatim>\<open>lon\<close>, \<^verbatim>\<open>lat\<close> and \<^verbatim>\<open>data\<close>, when the three
  shapes are equal the constructor succeeds and stores the arrays under \<^verbatim>\<open>_lon\<close>,
  \<^verbatim>\<open>_lat\<close> and \<^verbatim>\<open>_data\<close>; when any two of the shapes differ it raises
  DataSetException.
\<close>

theorem Cloud_init_shapes:
  "(slon = slat \<and> slon = sdata \<longrightarrow>
      Cloud_init (NdArray dlon slon xs) (NdArray dlat slat ys) (NdArray ddata sdata vs) =
        Inr [''_lon'' \<mapsto> NdArray dlon slon xs, ''_lat'' \<mapsto> NdArray dlat slat ys,
             ''_data'' \<mapsto> NdArray ddata sdata vs]) \<and>
   (slon \<noteq> slat \<or> slon \<noteq> sdata \<or> slat \<noteq> sdata \<longrightarrow>
      Cloud_init (NdArray dlon slon xs) (NdArray dlat slat ys) (NdArray ddata sdata vs) =
        Inl DataSetException)"
  by (auto simp: Cloud_init_def try_bind_def)

theorem Cloud_init_shapes_witness:
  "Cloud_init (NdArray Float64 [3] [10, 20, 30]) (NdArray Float64 [3] [1, 2, 3]) (NdArray Float64 [3] [7, 8, 9]) =
     Inr [''_lon'' \<mapsto> NdArray Float64 [3] [10, 20, 30], ''_lat'' \<mapsto> NdArray Float64 [3] [1, 2, 3],
          ''_data'' \<mapsto> NdArray Float64 [3] [7, 8, 9]] \<and>
   Cloud_init (NdArray Float64 [3] [10, 20, 30]) (NdArray Float64 [3] [1, 2, 3]) (NdArray Float64 [2] [7, 8]) =
     Inl DataSetException \<and>
   Cloud_init (NdArray Float64 [1, 3] [10, 20, 30]) (NdArray Float64 [3] [1, 2, 3]) (NdArray Float64 [3] [7, 8, 9]) =
     Inl DataSetException"
  using Cloud_init_shapes [of "[3]" "[3]" "[3]" Float64 "[10, 20, 30]" Float64 "[1, 2, 3]"
      Float64 "[7, 8, 9]"]
    Cloud_init_shapes [of "[3]" "[3]" "[2]" Float64 "[10, 20, 30]" Float64 "[1, 2, 3]"
      Float64 "[7, 8]"]
    Cloud_init_shapes [of "[1, 3]" "[3]" "[3]" Float64 "[10, 20, 30]" Float64 "[1, 2, 3]"
      Float64 "[7, 8, 9]"]
  by simp

section \<open>A rejected replacement\<close>

text \<open>
  Claim C9: when \<^verbatim>\<open>setData\<close> raises (the shape-mismatch error or any other), the
  Cloud is what it was before the call: the assignment is the last statement of the
  method, after the check.
\<close>

theorem setData_error_keeps_state:
  "fst (setData self data) = Inl e \<Longrightarrow> snd (setData self data) = self"
  by (simp add: setData_def split: sum.splits)

theorem setData_error_keeps_state_witness:
  "fst (setData example_cloud (NdArray Float64 [2] [4, 5])) = Inl DataSetException \<and>
   snd (setData example_cloud (NdArray Float64 [2] [4, 5])) = example_cloud"
proof -
  have h: "fst (setData example_cloud (NdArray Float64 [2] [4, 5])) = Inl DataSetException"
    by (simp add: setData_def try_bind_def getattr_def example_cloud_def)
  from h setData_error_keeps_state [OF h] show ?thesis by simp
qed

section \<open>What is not implemented\<close>

text \<open>
  Claim C6: for every Cloud, \<^verbatim>\<open>getValue\<close> with a method other than
  \<^verbatim>\<open>'nearest'\<close> raises NotImplementedError, and \<^verbatim>\<open>interpolateToGrid\<close> raises
  NotImplementedError whatever its arguments are.
\<close>

theorem not_implemented:
  "method \<noteq> ''nearest'' \<Longrightarrow>
   getValue distance self lat lon method = Inl NotImplementedError \<and>
   interpolateToGrid self geodict gmethod = Inl NotImplementedError"
  by (simp add: getValue_def interpolateToGrid_def)

theorem not_implemented_witness:
  "''linear'' \<noteq> ''nearest'' \<and>
   getValue (\<lambda>lon lat lons lats. Inr lons) example_cloud 2 20 ''linear'' =
     Inl NotImplementedError \<and>
   interpolateToGrid example_cloud PyNone ''linear'' = Inl NotImplementedError"
proof -
  have h: "''linear'' \<noteq> ''nearest''" by simp
  from h not_implemented [OF h, of "\<lambda>lon lat lons lats. Inr lons" example_cloud 2 20 PyNone "''linear''"]
  show ?thesis by simp
qed

section \<open>Bounds\<close>

text \<open>
  Claim C7: for every Cloud that is not empty, \<^verbatim>\<open>getBounds\<close> returns, in this
  order, the least and the greatest of the stored longitudes and the least and the
  greatest of the stored latitudes.
\<close>

theorem getBounds_min_max:
  assumes "wf_cloud self" "elements self ''_lon'' \<noteq> []"
  shows "getBounds self =
     Inr (Min (set (elements self ''_lon'')), Max (set (elements self ''_lon'')),
          Min (set (elements self ''_lat'')), Max (set (elements self ''_lat'')))"
proof -
  from assms(1) obtain dx dy dv s xs ys vs where a:
    "self ''_lon'' = Some (NdArray dx s xs)" "self ''_lat'' = Some (NdArray dy s ys)"
    "self ''_data'' = Some (NdArray dv s vs)"
    and l: "length xs = prod_list s" "length ys = prod_list s" "length vs = prod_list s"
    by (rule wf_cloudD)
  from assms(2) a have "xs \<noteq> []" by (simp add: elements_def)
  then obtain x xs' where xs: "xs = x # xs'" by (cases xs) auto
  with l obtain y ys' where ys: "ys = y # ys'" by (cases ys) auto
  show ?thesis
    using a unfolding xs ys
    by (simp add: getBounds_def getattr_def try_bind_def elements_def
        Min.set_eq_fold Max.set_eq_fold del: set_simps)
qed

theorem getBounds_min_max_witness:
  "wf_cloud example_cloud \<and> elements example_cloud ''_lon'' \<noteq> [] \<and>
   getBounds example_cloud = Inr (10, 30, 1, 3)"
proof -
  have h: "elements example_cloud ''_lon'' \<noteq> []"
    by (simp add: elements_def example_cloud_def)
  have e: "elements example_cloud ''_lon'' = [10, 20, 30]"
    "elements example_cloud ''_lat'' = [1, 2, 3]"
    by (simp_all add: elements_def example_cloud_def)
  from getBounds_min_max [OF wf_cloud_example h] wf_cloud_example h
  show ?thesis unfolding e by simp
qed

section \<open>The invariant\<close>

text \<open>
  Claim C5: the three arrays of a Cloud have the same shape after construction and
  after every sequence of calls of \<^verbatim>\<open>setData\<close>, \<^verbatim>\<open>trim\<close>, \<^verbatim>\<open>getValue\<close>,
  \<^verbatim>\<open>getBounds\<close> and \<^verbatim>\<open>getData\<close>, whether the calls return or raise. A
  replacement of the values that would break the invariant is rejected: \<^verbatim>\<open>setData\<close>
  raises and leaves the Cloud as it is. The arrays handed to the constructor and to
  \<^verbatim>\<open>setData\<close> are well-formed numpy arrays.
\<close>

theorem cloud_invariant:
  assumes "Cloud_init lon lat data = Inr self"
    and "wf_pyval lon" "wf_pyval lat" "wf_pyval data"
    and "list_all wf_call calls"
  shows "cloud_inv (foldl state_after self calls) \<and>
         (\<forall>d. \<not> cloud_inv ((foldl state_after self calls)(''_data'' \<mapsto> d)) \<longrightarrow>
              isl (fst (setData (foldl state_after self calls) d)) \<and>
              snd (setData (foldl state_after self calls) d) = foldl state_after self calls)"
proof -
  let ?final = "foldl state_after self calls"
  have "wf_cloud self" using assms(1-4) by (rule wf_cloud_init)
  then have wf: "wf_cloud ?final" using assms(5) by (rule wf_cloud_calls)
  then have inv: "cloud_inv ?final" by (simp add: wf_cloud_def)
  from wf obtain dx dy dv s xs ys vs where a:
    "?final ''_lon'' = Some (NdArray dx s xs)" "?final ''_lat'' = Some (NdArray dy s ys)"
    "?final ''_data'' = Some (NdArray dv s vs)"
    by (rule wf_cloudD)
  have rej: "isl (fst (setData ?final d)) \<and> snd (setData ?final d) = ?final"
    if d: "\<not> cloud_inv (?final(''_data'' \<mapsto> d))" for d
  proof (cases d)
    case (NdArray dd sd ds)
    have "sd \<noteq> s"
    proof
      assume "sd = s"
      with a NdArray have "cloud_inv (?final(''_data'' \<mapsto> d))"
        by (simp add: cloud_inv_def attr_shape_def getattr_def try_bind_def)
      with d show False by simp
    qed
    with NdArray show ?thesis
      by (simp add: setData_cases[of ?final dx s xs, OF a(1)])
  qed (simp_all add: setData_cases[of ?final dx s xs, OF a(1)])
  from inv rej show ?thesis by blast
qed

theorem cloud_invariant_witness:
  "Cloud_init (NdArray Float64 [3] [10, 20, 30]) (NdArray Float64 [3] [1, 2, 3]) (NdArray Float64 [3] [7, 8, 9])
     = Inr example_cloud \<and>
   list_all wf_call
     [SetData (NdArray Float64 [3] [4, 5, 6]), GetBounds, Trim [15, 40, 0, 4],
      GetValue 2 20 ''nearest'', SetData (NdArray Float64 [3] [4, 5, 6]), GetData] \<and>
   foldl state_after example_cloud
     [SetData (NdArray Float64 [3] [4, 5, 6]), GetBounds, Trim [15, 40, 0, 4],
      GetValue 2 20 ''nearest'', SetData (NdArray Float64 [3] [4, 5, 6]), GetData] =
     [''_lon'' \<mapsto> NdArray Float64 [2] [20, 30], ''_lat'' \<mapsto> NdArray Float64 [2] [2, 3],
      ''_data'' \<mapsto> NdArray Float64 [2] [5, 6]] \<and>
   cloud_inv [''_lon'' \<mapsto> NdArray Float64 [2] [20, 30], ''_lat'' \<mapsto> NdArray Float64 [2] [2, 3],
      ''_data'' \<mapsto> NdArray Float64 [2] [5, 6]] \<and>
   \<not> cloud_inv [''_lon'' \<mapsto> NdArray Float64 [2] [20, 30], ''_lat'' \<mapsto> NdArray Float64 [2] [2, 3],
      ''_data'' \<mapsto> PyList [5, 6]] \<and>
   isl (fst (setData [''_lon'' \<mapsto> NdArray Float64 [2] [20, 30], ''_lat'' \<mapsto> NdArray Float64 [2] [2, 3],
      ''_data'' \<mapsto> NdArray Float64 [2] [5, 6]] (PyList [5, 6])))"
proof -
  let ?calls = "[SetData (NdArray Float64 [3] [4, 5, 6]), GetBounds, Trim [15, 40, 0, 4],
      GetValue 2 20 ''nearest'', SetData (NdArray Float64 [3] [4, 5, 6]), GetData]"
  let ?final = "[''_lon'' \<mapsto> NdArray Float64 [2] [20, 30], ''_lat'' \<mapsto> NdArray Float64 [2] [2, 3],
      ''_data'' \<mapsto> NdArray Float64 [2] [5, 6]]"
  have w: "wf_pyval (NdArray Float64 [3] [10, 20, 30])" "wf_pyval (NdArray Float64 [3] [1, 2, 3])"
    "wf_pyval (NdArray Float64 [3] [7, 8, 9])"
    by simp_all
  have c: "list_all wf_call ?calls" by simp
  have s1: "snd (setData example_cloud (NdArray Float64 [3] [4, 5, 6])) =
      [''_lon'' \<mapsto> NdArray Float64 [3] [10, 20, 30], ''_lat'' \<mapsto> NdArray Float64 [3] [1, 2, 3],
       ''_data'' \<mapsto> NdArray Float64 [3] [4, 5, 6]]"
    by (simp add: setData_def try_bind_def getattr_def example_cloud_def)
  have s2: "snd (trim [''_lon'' \<mapsto> NdArray Float64 [3] [10, 20, 30], ''_lat'' \<mapsto> NdArray Float64 [3] [1, 2, 3],
       ''_data'' \<mapsto> NdArray Float64 [3] [4, 5, 6]] [15, 40, 0, 4]) = ?final"
    by (simp add: trim_def inside_mask_def try_bind_def getattr_def index_bounds_def
        and_mask_def Let_def numeral_2_eq_2)
  have s3: "snd (setData ?final (NdArray Float64 [3] [4, 5, 6])) = ?final"
    by (simp add: setData_def try_bind_def getattr_def)
  have f: "foldl state_after example_cloud ?calls = ?final"
    by (simp add: s1 s2 s3)
  have n: "\<not> cloud_inv (?final(''_data'' \<mapsto> PyList [5, 6]))"
    by (simp add: cloud_inv_def attr_shape_def getattr_def try_bind_def)
  have u: "?final(''_data'' \<mapsto> PyList [5, 6]) =
      [''_lon'' \<mapsto> NdArray Float64 [2] [20, 30], ''_lat'' \<mapsto> NdArray Float64 [2] [2, 3], ''_data'' \<mapsto> PyList [5, 6]]"
    by simp
  have t: "cloud_inv ?final \<and>
      (\<not> cloud_inv (?final(''_data'' \<mapsto> PyList [5, 6])) \<longrightarrow>
         isl (fst (setData ?final (PyList [5, 6]))))"
    using cloud_invariant [OF Cloud_init_example w c] unfolding f by blast
  from t n have r: "isl (fst (setData ?final (PyList [5, 6])))" by blast
  from t have i: "cloud_inv ?final" by blast
  from Cloud_init_example c f i n[unfolded u] r show ?thesis by blast
qed

end
